theory Spec2Isabelle
  imports Complex_Main "HOL-Library.Sublist"
begin

section \<open>Data model\<close>

text \<open>
  The repository holds two generations of the persistence layer: the methods of
  \<open>MongoDB\<close> in \<^verbatim>\<open>backend/mongo.go\<close> (package \<open>main\<close>) and the functions of
  package \<open>database\<close>. Both are embedded here; a constant named \<open>MongoDB_f\<close> is the
  method \<open>(*MongoDB).f\<close>, a constant named \<open>database_f\<close> is the function \<open>f\<close> of package
  \<open>database\<close>.

  \<open>time.Time\<close> is a natural number of clock ticks.
\<close>

type_synonym time = nat

text \<open>
  A \<open>float64\<close>: a number, an infinity or NaN. The program only stores and compares
  prices, so the numbers are reals and rounding plays no part; the two zeros of the
  machine format are one. \<open>float64_less\<close> is Go's \<open><\<close>: false whenever an operand is
  NaN. Go's \<open>x == 0\<close> holds exactly for the number 0.
\<close>

datatype float64 = NegInf | Num real | PosInf | NaN

fun float64_less :: "float64 \<Rightarrow> float64 \<Rightarrow> bool" where
  "float64_less NaN y = False"
| "float64_less x NaN = False"
| "float64_less x NegInf = False"
| "float64_less NegInf y = True"
| "float64_less PosInf y = False"
| "float64_less (Num a) PosInf = True"
| "float64_less (Num a) (Num b) = (a < b)"

text \<open>
  A Go slice: nil, or a slice with its elements (possibly none). The two differ in how
  the driver encodes them.
\<close>

datatype 'a slice = NilSlice | Slice "'a list"

fun elems :: "'a slice \<Rightarrow> 'a list" where
  "elems NilSlice = []"
| "elems (Slice xs) = xs"

record Price =
  Value :: float64
  Timestamp :: time

text \<open>The struct \<open>Product\<close> of \<^verbatim>\<open>mongo.go\<close>.\<close>

record Product =
  ProductURL :: string
  ProductName :: string
  ImageURL :: string
  Specifications :: "string slice"
  PriceHistory :: "Price slice"

text \<open>
  Modelled from the spec: the declaration of \<open>models.Product\<close> is not among the sources.
  Package \<open>database\<close> reads and writes its fields \<open>MinPrice\<close> and \<open>MaxPrice\<close>, and the
  persisted document shape of the spec names them \<open>min_price\<close> and \<open>max_price\<close>; the
  other fields are those of \<open>Product\<close>.
\<close>

record models_Product = Product +
  MinPrice :: float64
  MaxPrice :: float64

text \<open>
  A field of a stored document is absent, or BSON null, or holds a value of its type.
  Within a collection documents are addressed by \<open>product_url\<close>. A stored value of
  another type makes the decoding fail, which is a failure of the collaborators below.
\<close>

datatype 'a field = Absent | Null | Val 'a

record document =
  product_url :: string
  product_name :: "string field"
  image_url :: "string field"
  specifications :: "string list field"
  price_history :: "Price list field"
  min_price :: "float64 field"
  max_price :: "float64 field"

datatype error = ErrNoDocuments | Err string

fun Error :: "error \<Rightarrow> string" where
  "Error ErrNoDocuments = ''mongo: no documents in result''"
| "Error (Err msg) = msg"

definition Errorf :: "string \<Rightarrow> error \<Rightarrow> error" where
  "Errorf prefix_msg e = Err (prefix_msg @ Error e)"

datatype vendor = Flipkart | Amazon

text \<open>
  What the program prints, logs and asks of the scraper gateway, in order. One
  constructor per format string of the source, holding the arguments of the call.
\<close>

datatype event =
    CallScrapePrice vendor string
  | CallScrapeProductDetails string
  | ErrorDecodingProduct error
  | ErrorScrapingPrice vendor string error
  | ErrorParsingPrice string error
  | UnsupportedVendor string
  | ErrorUpdatingPrice string error
  | UpdatedPrice string float64
  | Println string
  | ProcessingIncompleteRecords
  | FailedToConnect error
  | ErrorFindingIncompleteRecords error
  | CouldNotFindIncompleteRecords error
  | ErrorUpdatingProduct string error
  | SuccessfullyUpdatedProduct string

text \<open>
  The state outside the program: one database (collection name to documents, in
  insertion order), the collections that carry the unique index on \<open>product_url\<close>, the
  client connections, the clock and the output so far.
\<close>

record world =
  db :: "string \<Rightarrow> document list"
  unique_index :: "string set"
  next_client :: nat
  connected :: "nat list"
  clock :: time
  out :: "event list"

text \<open>
  The collaborators that are not part of the sources: the failures of the store
  (a message when the call fails, by collection and URL), the scrapers, and
  \<open>strconv.ParseFloat\<close>. A price scraper returns Go's pair of a string and an error;
  a details scraper is taken to return a product whenever it returns no error. The
  package-level \<open>MongoURI\<close> is declared outside the sources and is a field here.
\<close>

record env =
  connect_err :: "string \<Rightarrow> string option"
  ping_err :: "string \<Rightarrow> string option"
  index_err :: "string \<Rightarrow> string option"
  find_one_err :: "string \<Rightarrow> string \<Rightarrow> string option"
  update_err :: "string \<Rightarrow> string \<Rightarrow> string option"
  find_err :: "string \<Rightarrow> string option"
  decode_err :: "document \<Rightarrow> string option"
  ScrapePriceFlipkart :: "string \<Rightarrow> string \<times> error option"
  ScrapePriceAmazon :: "string \<Rightarrow> string \<times> error option"
  scrapeProductDetails :: "string \<Rightarrow> error + Product"
  scraper_ScrapeProductDetails :: "string \<Rightarrow> error + models_Product"
  ParseFloat :: "string \<Rightarrow> error + float64"
  MongoURI :: string

record MongoDB =
  client :: nat
  database :: string
  collection :: string

section \<open>The store\<close>

definition emit :: "event \<Rightarrow> world \<Rightarrow> world" where
  "emit x w = w\<lparr>out := out w @ [x]\<rparr>"

definition time_Now :: "world \<Rightarrow> time \<times> world" where
  "time_Now w = (clock w, w\<lparr>clock := Suc (clock w)\<rparr>)"

text \<open>
  Decoding a document into a struct: an absent field leaves the zero value of the
  struct's field, null sets it (a string to the empty string, a number to 0, a slice to
  nil), an array becomes a slice that is not nil.
\<close>

fun decode_field :: "'a \<Rightarrow> 'a field \<Rightarrow> 'a" where
  "decode_field zero Absent = zero"
| "decode_field zero Null = zero"
| "decode_field zero (Val x) = x"

fun decode_slice :: "'a list field \<Rightarrow> 'a slice" where
  "decode_slice Absent = NilSlice"
| "decode_slice Null = NilSlice"
| "decode_slice (Val xs) = Slice xs"

text \<open>
  Encoding a slice: the fields of the structs carry no \<open>omitempty\<close>, and the driver
  writes a nil slice as null and any other slice as an array.
\<close>

fun encode_slice :: "'a slice \<Rightarrow> 'a list field" where
  "encode_slice NilSlice = Null"
| "encode_slice (Slice xs) = Val xs"

definition decode_Product :: "document \<Rightarrow> Product" where
  "decode_Product d =
     \<lparr>ProductURL = product_url d,
      ProductName = decode_field [] (product_name d),
      ImageURL = decode_field [] (image_url d),
      Specifications = decode_slice (specifications d),
      PriceHistory = decode_slice (price_history d)\<rparr>"

definition decode_models_Product :: "document \<Rightarrow> models_Product" where
  "decode_models_Product d =
     \<lparr>ProductURL = product_url d,
      ProductName = decode_field [] (product_name d),
      ImageURL = decode_field [] (image_url d),
      Specifications = decode_slice (specifications d),
      PriceHistory = decode_slice (price_history d),
      MinPrice = decode_field (Num 0) (min_price d),
      MaxPrice = decode_field (Num 0) (max_price d)\<rparr>"

text \<open>
  \<open>FindOne(ctx, {product_url: url})\<close>: the first document of the collection with this
  URL, \<open>ErrNoDocuments\<close> when there is none, another error when the store fails.
\<close>

definition FindOne :: "env \<Rightarrow> string \<Rightarrow> string \<Rightarrow> world \<Rightarrow> error + document" where
  "FindOne env c url w =
     (case find_one_err env c url of
        Some msg \<Rightarrow> Inl (Err msg)
      | None \<Rightarrow>
          (case find (\<lambda>d. product_url d = url) (db w c) of
             None \<Rightarrow> Inl ErrNoDocuments
           | Some d \<Rightarrow> Inr d))"

text \<open>The document an upsert inserts before its update is applied: the filter's field.\<close>

definition new_document :: "string \<Rightarrow> document" where
  "new_document url =
     \<lparr>product_url = url, product_name = Absent, image_url = Absent, specifications = Absent,
      price_history = Absent, min_price = Absent, max_price = Absent\<rparr>"

text \<open>
  \<open>UpdateOne(ctx, {product_url: url}, update, opts)\<close> on the documents of a collection.
  The update is applied to the first document with this URL; when there is none, the
  upsert option inserts one and without it nothing changes. An update the server
  rejects for the matched document is an error and changes nothing. The result of
  \<open>UpdateOne\<close> other than its error (the counts of matched and modified documents) is
  dropped by every caller and is not modelled.
\<close>

fun replace_first :: "string \<Rightarrow> document \<Rightarrow> document list \<Rightarrow> document list" where
  "replace_first url d' [] = []"
| "replace_first url d' (d # ds) =
     (if product_url d = url then d' # ds else d # replace_first url d' ds)"

definition update_one ::
  "string \<Rightarrow> (document \<Rightarrow> error + document) \<Rightarrow> bool \<Rightarrow> document list \<Rightarrow> error + document list" where
  "update_one url upd upsert ds =
     (case find (\<lambda>d. product_url d = url) ds of
        None \<Rightarrow>
          if upsert
          then (case upd (new_document url) of
                  Inl err \<Rightarrow> Inl err
                | Inr d' \<Rightarrow> Inr (ds @ [d']))
          else Inr ds
      | Some d \<Rightarrow>
          (case upd d of
             Inl err \<Rightarrow> Inl err
           | Inr d' \<Rightarrow> Inr (replace_first url d' ds)))"

definition UpdateOne ::
  "env \<Rightarrow> string \<Rightarrow> string \<Rightarrow> (document \<Rightarrow> error + document) \<Rightarrow> bool \<Rightarrow> world \<Rightarrow>
   error option \<times> world" where
  "UpdateOne env c url upd upsert w =
     (case update_err env c url of
        Some msg \<Rightarrow> (Some (Err msg), w)
      | None \<Rightarrow>
          (case update_one url upd upsert (db w c) of
             Inl err \<Rightarrow> (Some err, w)
           | Inr ds \<Rightarrow> (None, w\<lparr>db := (db w)(c := ds)\<rparr>)))"

text \<open>The update \<open>{$set: product}\<close>: every field of the struct is written; it never fails.\<close>

definition set_Product :: "'a Product_scheme \<Rightarrow> document \<Rightarrow> document" where
  "set_Product p d =
     d\<lparr>product_url := ProductURL p,
       product_name := Val (ProductName p),
       image_url := Val (ImageURL p),
       specifications := encode_slice (Specifications p),
       price_history := encode_slice (PriceHistory p)\<rparr>"

definition set_models_Product :: "models_Product \<Rightarrow> document \<Rightarrow> document" where
  "set_models_Product p d =
     (set_Product p d)\<lparr>min_price := Val (MinPrice p), max_price := Val (MaxPrice p)\<rparr>"

text \<open>
  The update \<open>{$push: {price_history: newPrice}}\<close>: an absent array is created, an
  array is extended, and a field that is not an array (here: null) is rejected.
\<close>

definition push_price :: "Price \<Rightarrow> document \<Rightarrow> error + document" where
  "push_price newPrice d =
     (case price_history d of
        Absent \<Rightarrow> Inr (d\<lparr>price_history := Val [newPrice]\<rparr>)
      | Val h \<Rightarrow> Inr (d\<lparr>price_history := Val (h @ [newPrice])\<rparr>)
      | Null \<Rightarrow> Inl (Err ''price_history must be an array but is of type null''))"

section \<open>backend/mongo.go\<close>

text \<open>
  \<open>UpsertProduct\<close>, lines 71 to 96. The error of \<open>FindOne(...).Decode\<close> is tested twice:
  any error but \<open>ErrNoDocuments\<close> is returned wrapped (line 80), and unless it is
  \<open>ErrNoDocuments\<close> the history of the existing product replaces the incoming one
  (line 85). The product is passed by pointer; its value after the call is the second
  component of the result.
\<close>

definition MongoDB_UpsertProduct ::
  "env \<Rightarrow> MongoDB \<Rightarrow> Product \<Rightarrow> world \<Rightarrow> error option \<times> Product \<times> world" where
  "MongoDB_UpsertProduct env m product w =
     (case FindOne env (collection m) (ProductURL product) w of
        Inl err \<Rightarrow>
          if err \<noteq> ErrNoDocuments
          then (Some (Errorf ''error checking existing product: '' err), product, w)
          else (case UpdateOne env (collection m) (ProductURL product) (\<lambda>d. Inr (set_Product product d)) True w of
                  (err', w') \<Rightarrow> (err', product, w'))
      | Inr existing \<Rightarrow>
          (let product' = product\<lparr>PriceHistory := PriceHistory (decode_Product existing)\<rparr>
           in case UpdateOne env (collection m) (ProductURL product') (\<lambda>d. Inr (set_Product product' d)) True w of
                (err', w') \<Rightarrow> (err', product', w')))"


definition MongoDB_GetProduct :: "env \<Rightarrow> MongoDB \<Rightarrow> string \<Rightarrow> world \<Rightarrow> error + Product" where
  "MongoDB_GetProduct env m productURL w =
     (case FindOne env (collection m) productURL w of
        Inl err \<Rightarrow> Inl err
      | Inr d \<Rightarrow> Inr (decode_Product d))"


text \<open>\<open>strings.Contains(s, substr)\<close>.\<close>

fun Contains :: "string \<Rightarrow> string \<Rightarrow> bool" where
  "Contains [] substr = (substr = [])"
| "Contains (c # s) substr = (prefix substr (c # s) \<or> Contains s substr)"

text \<open>
  \<open>Find(ctx, filter)\<close> opens a cursor over the documents that match, as the collection
  holds them at that moment; \<open>cursor.Decode\<close> decodes the current one.
\<close>

definition Find :: "env \<Rightarrow> string \<Rightarrow> (document \<Rightarrow> bool) \<Rightarrow> world \<Rightarrow> error + document list" where
  "Find env c flt w =
     (case find_err env c of
        Some msg \<Rightarrow> Inl (Err msg)
      | None \<Rightarrow> Inr (filter flt (db w c)))"

definition cursor_Decode :: "env \<Rightarrow> document \<Rightarrow> error + Product" where
  "cursor_Decode env d =
     (case decode_err env d of
        Some msg \<Rightarrow> Inl (Err msg)
      | None \<Rightarrow> Inr (decode_Product d))"

definition cursor_Decode_models :: "env \<Rightarrow> document \<Rightarrow> error + models_Product" where
  "cursor_Decode_models env d =
     (case decode_err env d of
        Some msg \<Rightarrow> Inl (Err msg)
      | None \<Rightarrow> Inr (decode_models_Product d))"

definition NewMongoDB :: "env \<Rightarrow> string \<Rightarrow> string \<Rightarrow> world \<Rightarrow> (error + MongoDB) \<times> world" where
  "NewMongoDB env uri username w =
     (case connect_err env uri of
        Some msg \<Rightarrow> (Inl (Err msg), w)
      | None \<Rightarrow>
          (let c = next_client w;
               w1 = w\<lparr>next_client := Suc c, connected := c # connected w\<rparr>
           in case ping_err env uri of
                Some msg \<Rightarrow> (Inl (Err msg), w1)
              | None \<Rightarrow>
                  (case index_err env username of
                     Some msg \<Rightarrow> (Inl (Err msg), w1)
                   | None \<Rightarrow>
                       (Inr \<lparr>client = c, database = ''price_tracker'', collection = username\<rparr>,
                        w1\<lparr>unique_index := insert username (unique_index w1)\<rparr>))))"

definition MongoDB_Close :: "MongoDB \<Rightarrow> world \<Rightarrow> world" where
  "MongoDB_Close m w = w\<lparr>connected := removeAll (client m) (connected w)\<rparr>"

text \<open>Lines 175 to 198: the new price entry, its push and the report.\<close>

definition MongoDB_UpdatePrices_push ::
  "env \<Rightarrow> MongoDB \<Rightarrow> Product \<Rightarrow> float64 \<Rightarrow> world \<Rightarrow> world" where
  "MongoDB_UpdatePrices_push env m product currentPrice w =
     (case time_Now w of
        (now, w1) \<Rightarrow>
          (case UpdateOne env (collection m) (ProductURL product)
                  (push_price \<lparr>Value = currentPrice, Timestamp = now\<rparr>) False w1 of
             (Some err, w2) \<Rightarrow> emit (ErrorUpdatingPrice (ProductURL product) err) w2
           | (None, w2) \<Rightarrow> emit (UpdatedPrice (ProductName product) currentPrice) w2))"

text \<open>One turn of the loop of \<open>UpdatePrices\<close>, lines 138 to 198; every \<open>continue\<close> ends it.\<close>

definition MongoDB_UpdatePrices_item :: "env \<Rightarrow> MongoDB \<Rightarrow> document \<Rightarrow> world \<Rightarrow> world" where
  "MongoDB_UpdatePrices_item env m d w =
     (case cursor_Decode env d of
        Inl err \<Rightarrow> emit (ErrorDecodingProduct err) w
      | Inr product \<Rightarrow>
          if Contains (ProductURL product) ''flipkart'' then
            (case ScrapePriceFlipkart env (ProductURL product) of
               (priceStr, err) \<Rightarrow>
                 (let w1 = emit (CallScrapePrice Flipkart (ProductURL product)) w
                  in case err of
                       Some e \<Rightarrow> emit (ErrorScrapingPrice Flipkart (ProductURL product) e) w1
                     | None \<Rightarrow>
                         (case ParseFloat env priceStr of
                            Inl e \<Rightarrow> emit (ErrorParsingPrice priceStr e) w1
                          | Inr currentPrice \<Rightarrow>
                              MongoDB_UpdatePrices_push env m product currentPrice w1)))
          else if Contains (ProductURL product) ''amazon'' then
            (case ScrapePriceAmazon env (ProductURL product) of
               (priceStr, err) \<Rightarrow>
                 (let w1 = emit (CallScrapePrice Amazon (ProductURL product)) w
                  in case err of
                       Some e \<Rightarrow> emit (ErrorScrapingPrice Amazon (ProductURL product) e) w1
                     | None \<Rightarrow>
                         (case ParseFloat env priceStr of
                            Inl e \<Rightarrow> emit (ErrorParsingPrice priceStr e) w1
                          | Inr currentPrice \<Rightarrow>
                              MongoDB_UpdatePrices_push env m product currentPrice w1)))
          else emit (UnsupportedVendor (ProductURL product)) w)"

fun MongoDB_UpdatePrices_loop :: "env \<Rightarrow> MongoDB \<Rightarrow> document list \<Rightarrow> world \<Rightarrow> world" where
  "MongoDB_UpdatePrices_loop env m [] w = w"
| "MongoDB_UpdatePrices_loop env m (d # cursor) w =
     MongoDB_UpdatePrices_loop env m cursor (MongoDB_UpdatePrices_item env m d w)"

definition MongoDB_UpdatePrices :: "env \<Rightarrow> MongoDB \<Rightarrow> world \<Rightarrow> error option \<times> world" where
  "MongoDB_UpdatePrices env m w =
     (case Find env (collection m) (\<lambda>d. True) w of
        Inl err \<Rightarrow> (Some (Errorf ''failed to find products: '' err), w)
      | Inr cursor \<Rightarrow> (None, MongoDB_UpdatePrices_loop env m cursor w))"

text \<open>
  The filter of the incomplete-records scan, one disjunct per entry of its \<open>$or\<close>:
  equality with the empty string, \<open>$exists: false\<close>, \<open>$size: 0\<close>. A field that is null
  exists, is not the empty string and is not an array of size 0.
\<close>

definition incomplete_filter :: "document \<Rightarrow> bool" where
  "incomplete_filter d =
     (product_name d = Val [] \<or> product_name d = Absent \<or>
      image_url d = Val [] \<or> image_url d = Absent \<or>
      (case specifications d of Val xs \<Rightarrow> length xs = 0 | Absent \<Rightarrow> False | Null \<Rightarrow> False) \<or>
      specifications d = Absent)"

text \<open>How a function leaves: it returns its error value, or \<open>log.Fatalf\<close> ends the process.\<close>

datatype exit = Returned "error option" | Fatal

definition MongoDB_UpdateIncompleteRecords_item ::
  "env \<Rightarrow> MongoDB \<Rightarrow> document \<Rightarrow> world \<Rightarrow> world" where
  "MongoDB_UpdateIncompleteRecords_item env dbh d w =
     (case cursor_Decode env d of
        Inl err \<Rightarrow> emit (ErrorDecodingProduct err) w
      | Inr product \<Rightarrow>
          (let url = ProductURL product;
               w1 = emit (CallScrapeProductDetails url) w
           in case scrapeProductDetails env url of
                Inl err \<Rightarrow> emit (ErrorUpdatingProduct (ProductURL product) err) w1
              | Inr updatedProduct \<Rightarrow>
                  (case MongoDB_UpsertProduct env dbh updatedProduct w1 of
                     (Some err, _, w2) \<Rightarrow> emit (ErrorUpdatingProduct (ProductURL product) err) w2
                   | (None, _, w2) \<Rightarrow> emit (SuccessfullyUpdatedProduct (ProductURL product)) w2)))"

fun MongoDB_UpdateIncompleteRecords_loop ::
  "env \<Rightarrow> MongoDB \<Rightarrow> document list \<Rightarrow> world \<Rightarrow> world" where
  "MongoDB_UpdateIncompleteRecords_loop env dbh [] w = w"
| "MongoDB_UpdateIncompleteRecords_loop env dbh (d # cursor) w =
     MongoDB_UpdateIncompleteRecords_loop env dbh cursor
       (MongoDB_UpdateIncompleteRecords_item env dbh d w)"

text \<open>
  The receiver \<open>m\<close> is an argument as in the source, which never mentions it again. The
  deferred \<open>db.Close()\<close> runs when the function returns, not when the process is ended.
\<close>

definition MongoDB_UpdateIncompleteRecords :: "env \<Rightarrow> MongoDB \<Rightarrow> world \<Rightarrow> exit \<times> world" where
  "MongoDB_UpdateIncompleteRecords env m w =
     (case NewMongoDB env (MongoURI env) ''cypher'' w of
        (Inl err, w1) \<Rightarrow> (Fatal, emit (FailedToConnect err) w1)
      | (Inr dbh, w1) \<Rightarrow>
          (let w2 = emit ProcessingIncompleteRecords w1
           in case Find env (collection dbh) incomplete_filter w2 of
                Inl err \<Rightarrow> (Fatal, emit (ErrorFindingIncompleteRecords err) w2)
              | Inr cursor \<Rightarrow>
                  (Returned None,
                   MongoDB_Close dbh (MongoDB_UpdateIncompleteRecords_loop env dbh cursor w2))))"

section \<open>Package database\<close>

text \<open>
  The package-level \<open>DB\<close> is the database of the \<open>world\<close>; \<open>DB.Collection(user)\<close> is
  its collection of that name.
\<close>

text \<open>
  \<open>UpsertProduct\<close>, lines 39 to 70: as in \<^verbatim>\<open>mongo.go\<close>, with the product
  passed by value and the collection chosen by the user's name. Lines 59 and 60, which
  would copy \<open>MinPrice\<close> and \<open>MaxPrice\<close> of the existing product, are comments.
\<close>

definition database_UpsertProduct ::
  "env \<Rightarrow> models_Product \<Rightarrow> string \<Rightarrow> world \<Rightarrow> error option \<times> world" where
  "database_UpsertProduct env product user w =
     (case FindOne env user (ProductURL product) w of
        Inl err \<Rightarrow>
          if err \<noteq> ErrNoDocuments
          then (Some (Errorf ''error checking existing product: '' err), w)
          else UpdateOne env user (ProductURL product) (\<lambda>d. Inr (set_models_Product product d)) True w
      | Inr existing \<Rightarrow>
          (let product' = product\<lparr>PriceHistory := PriceHistory (decode_models_Product existing)\<rparr>
           in UpdateOne env user (ProductURL product') (\<lambda>d. Inr (set_models_Product product' d)) True w))"

text \<open>Lines 108 to 113: the running minimum and maximum, with 0 for "none yet".\<close>

definition update_aggregates :: "float64 \<Rightarrow> models_Product \<Rightarrow> models_Product" where
  "update_aggregates currentPrice product =
     (let product1 = (if MinPrice product = Num 0 \<or> float64_less currentPrice (MinPrice product)
                      then product\<lparr>MinPrice := currentPrice\<rparr> else product)
      in if MaxPrice product1 = Num 0 \<or> float64_less (MaxPrice product1) currentPrice
         then product1\<lparr>MaxPrice := currentPrice\<rparr> else product1)"

text \<open>
  The update \<open>{$push: {price_history: newPrice}, $set: {min_price: .., max_price: ..}}\<close>:
  one update, rejected as a whole when the push is.
\<close>

definition push_price_set_aggregates ::
  "Price \<Rightarrow> float64 \<Rightarrow> float64 \<Rightarrow> document \<Rightarrow> error + document" where
  "push_price_set_aggregates newPrice mn mx d =
     (case push_price newPrice d of
        Inl err \<Rightarrow> Inl err
      | Inr d' \<Rightarrow> Inr (d'\<lparr>min_price := Val mn, max_price := Val mx\<rparr>))"

text \<open>Lines 107 to 141: the aggregates, the new price entry, the single update, the report.\<close>

definition database_UpdatePrices_store ::
  "env \<Rightarrow> string \<Rightarrow> models_Product \<Rightarrow> float64 \<Rightarrow> world \<Rightarrow> error option \<times> models_Product \<times> world" where
  "database_UpdatePrices_store env user product currentPrice w =
     (let product' = update_aggregates currentPrice product
      in case time_Now w of
           (now, w1) \<Rightarrow>
             (case UpdateOne env user (ProductURL product')
                     (push_price_set_aggregates \<lparr>Value = currentPrice, Timestamp = now\<rparr>
                        (MinPrice product') (MaxPrice product')) False w1 of
                (Some err, w2) \<Rightarrow>
                  (Some err, product', emit (ErrorUpdatingPrice (ProductURL product') err) w2)
              | (None, w2) \<Rightarrow>
                  (None, product', emit (UpdatedPrice (ProductName product') currentPrice) w2)))"

text \<open>
  \<open>UpdatePrices(user, product)\<close> as its braces nest. The brace that opens at
  \<open>if err != nil\<close> on line 86 is closed by the \<open>} else if\<close> of line 90, so the Amazon
  branch and the unsupported-vendor branch are the \<open>else\<close> branches of the Flipkart
  parse check, and lines 107 to 141 stand inside the block of line 79. The \<open>err\<close>
  returned on line 104 is the one the successful parse of line 85 set to nil. The
  Amazon branch logs a scrape error on line 94 and goes on. The product is passed by
  pointer; its value after the call is the second component of the result.
\<close>

definition database_UpdatePrices ::
  "env \<Rightarrow> string \<Rightarrow> models_Product \<Rightarrow> world \<Rightarrow> error option \<times> models_Product \<times> world" where
  "database_UpdatePrices env user product w =
     (if Contains (ProductURL product) ''flipkart'' then
        (case ScrapePriceFlipkart env (ProductURL product) of
           (priceStr, err) \<Rightarrow>
             (let w1 = emit (CallScrapePrice Flipkart (ProductURL product)) w
              in case err of
                   Some e \<Rightarrow>
                     (Some e, product, emit (ErrorScrapingPrice Flipkart (ProductURL product) e) w1)
                 | None \<Rightarrow>
                     (case ParseFloat env priceStr of
                        Inl e \<Rightarrow> (Some e, product, emit (ErrorParsingPrice priceStr e) w1)
                      | Inr currentPrice \<Rightarrow>
                          if Contains (ProductURL product) ''amazon'' then
                            (case ScrapePriceAmazon env (ProductURL product) of
                               (priceStr', err') \<Rightarrow>
                                 (let w2 = emit (Println priceStr')
                                             (emit (CallScrapePrice Amazon (ProductURL product)) w1);
                                      w3 = (case err' of
                                              Some e \<Rightarrow>
                                                emit (ErrorScrapingPrice Amazon (ProductURL product) e) w2
                                            | None \<Rightarrow> w2)
                                  in case ParseFloat env priceStr' of
                                       Inl e \<Rightarrow>
                                         (Some e, product, emit (ErrorParsingPrice priceStr' e) w3)
                                     | Inr currentPrice' \<Rightarrow>
                                         database_UpdatePrices_store env user product currentPrice' w3))
                          else (None, product, emit (UnsupportedVendor (ProductURL product)) w1))))
      else (None, product, w))"

definition database_UpdateIncompleteRecords_item ::
  "env \<Rightarrow> string \<Rightarrow> document \<Rightarrow> world \<Rightarrow> world" where
  "database_UpdateIncompleteRecords_item env user d w =
     (case cursor_Decode_models env d of
        Inl err \<Rightarrow> emit (ErrorDecodingProduct err) w
      | Inr product \<Rightarrow>
          (let url = ProductURL product;
               w1 = emit (CallScrapeProductDetails url) w
           in case scraper_ScrapeProductDetails env url of
                Inl err \<Rightarrow> emit (ErrorUpdatingProduct (ProductURL product) err) w1
              | Inr updatedProduct \<Rightarrow>
                  (case database_UpsertProduct env updatedProduct user w1 of
                     (Some err, w2) \<Rightarrow> emit (ErrorUpdatingProduct (ProductURL product) err) w2
                   | (None, w2) \<Rightarrow> emit (SuccessfullyUpdatedProduct (ProductURL product)) w2)))"

fun database_UpdateIncompleteRecords_loop ::
  "env \<Rightarrow> string \<Rightarrow> document list \<Rightarrow> world \<Rightarrow> world" where
  "database_UpdateIncompleteRecords_loop env user [] w = w"
| "database_UpdateIncompleteRecords_loop env user (d # cursor) w =
     database_UpdateIncompleteRecords_loop env user cursor
       (database_UpdateIncompleteRecords_item env user d w)"

definition database_UpdateIncompleteRecords :: "env \<Rightarrow> string \<Rightarrow> world \<Rightarrow> exit \<times> world" where
  "database_UpdateIncompleteRecords env user w =
     (let w1 = emit ProcessingIncompleteRecords w
      in case Find env user incomplete_filter w1 of
           Inl err \<Rightarrow> (Fatal, emit (CouldNotFindIncompleteRecords err) w1)
         | Inr cursor \<Rightarrow>
             (Returned None, database_UpdateIncompleteRecords_loop env user cursor w1))"

section \<open>Properties named by the specification\<close>


text \<open>Go's \<open><=\<close> on \<open>float64\<close>.\<close>

definition float64_le :: "float64 \<Rightarrow> float64 \<Rightarrow> bool" where
  "float64_le a b = (float64_less a b \<or> (a = b \<and> a \<noteq> NaN))"

text \<open>
  The aggregate consistency P3 of the specification, on a decoded product: the stored
  minimum and maximum are the least and the greatest of the values of the price
  history, and both are the sentinel 0 while the history is empty.
\<close>

definition spec_aggregates_consistent :: "models_Product \<Rightarrow> bool" where
  "spec_aggregates_consistent p =
     (let vs = map Value (elems (PriceHistory p))
      in if vs = [] then MinPrice p = Num 0 \<and> MaxPrice p = Num 0
         else MinPrice p \<in> set vs \<and> list_all (float64_le (MinPrice p)) vs \<and>
              MaxPrice p \<in> set vs \<and> list_all (\<lambda>v. float64_le v (MaxPrice p)) vs)"

text \<open>The calls of the scraper gateway among the events.\<close>

fun is_call :: "event \<Rightarrow> bool" where
  "is_call (CallScrapePrice v url) = True"
| "is_call (CallScrapeProductDetails url) = True"
| "is_call e = False"

text \<open>
  The calls one turn of the loop of \<open>(*MongoDB).UpdatePrices\<close> makes, read off the
  \<open>if\<close>, \<open>else if\<close>, \<open>else\<close> of lines 148 to 173: none for a document that does not
  decode, otherwise the first vendor whose name the URL contains.
\<close>

definition expected_calls :: "env \<Rightarrow> document \<Rightarrow> event list" where
  "expected_calls env d =
     (case cursor_Decode env d of
        Inl err \<Rightarrow> []
      | Inr product \<Rightarrow>
          if Contains (ProductURL product) ''flipkart''
          then [CallScrapePrice Flipkart (ProductURL product)]
          else if Contains (ProductURL product) ''amazon''
          then [CallScrapePrice Amazon (ProductURL product)]
          else [])"


text \<open>Replacing the documents of one collection, to state what a function does not touch.\<close>

definition put_collection :: "string \<Rightarrow> document list \<Rightarrow> world \<Rightarrow> world" where
  "put_collection c ds w = w\<lparr>db := (db w)(c := ds)\<rparr>"

text \<open>
  What \<open>UpdateOne\<close> with the upsert option leaves of a collection when its update cannot
  fail, as \<open>$set\<close> cannot.
\<close>

definition upserted :: "string \<Rightarrow> (document \<Rightarrow> document) \<Rightarrow> document list \<Rightarrow> document list" where
  "upserted url f ds =
     (case find (\<lambda>d. product_url d = url) ds of
        None \<Rightarrow> ds @ [f (new_document url)]
      | Some d \<Rightarrow> replace_first url (f d) ds)"

section \<open>Example data\<close>

text \<open>Concrete collaborators, stores and products on which the theorems are instantiated.\<close>

definition example_ParseFloat :: "string \<Rightarrow> error + float64" where
  "example_ParseFloat s =
     (if s = ''50'' then Inr (Num 50)
      else if s = ''120'' then Inr (Num 120)
      else if s = ''499'' then Inr (Num 499)
      else Inl (Err ''strconv.ParseFloat: invalid syntax''))"

definition quiet_env :: env where
  "quiet_env =
     \<lparr>connect_err = (\<lambda>uri. None), ping_err = (\<lambda>uri. None), index_err = (\<lambda>c. None),
      find_one_err = (\<lambda>c url. None), update_err = (\<lambda>c url. None), find_err = (\<lambda>c. None),
      decode_err = (\<lambda>d. None),
      ScrapePriceFlipkart = (\<lambda>url. (''50'', None)),
      ScrapePriceAmazon = (\<lambda>url. (''120'', None)),
      scrapeProductDetails =
        (\<lambda>url. Inr \<lparr>ProductURL = url, ProductName = ''A2'', ImageURL = ''i2'',
                     Specifications = Slice [''s2''], PriceHistory = NilSlice\<rparr>),
      scraper_ScrapeProductDetails =
        (\<lambda>url. Inr \<lparr>ProductURL = url, ProductName = ''A2'', ImageURL = ''i2'',
                     Specifications = Slice [''s2''], PriceHistory = NilSlice,
                     MinPrice = Num 0, MaxPrice = Num 0\<rparr>),
      ParseFloat = example_ParseFloat,
      MongoURI = ''mongodb://localhost:27017''\<rparr>"

definition empty_world :: world where
  "empty_world =
     \<lparr>db = (\<lambda>c. []), unique_index = {}, next_client = 0, connected = [], clock = 0, out = []\<rparr>"

definition alice :: MongoDB where
  "alice = \<lparr>client = 0, database = ''price_tracker'', collection = ''alice''\<rparr>"

definition amazon_p1 :: Product where
  "amazon_p1 =
     \<lparr>ProductURL = ''https://amazon.x/p/1'', ProductName = ''A'', ImageURL = ''i'',
      Specifications = Slice [''s''], PriceHistory = Slice []\<rparr>"

definition p1_doc :: document where
  "p1_doc =
     \<lparr>product_url = ''https://amazon.x/p/1'', product_name = Val ''A'', image_url = Val ''i'',
      specifications = Val [''s''], price_history = Val [], min_price = Absent,
      max_price = Absent\<rparr>"


definition tracked_doc :: document where
  "tracked_doc =
     \<lparr>product_url = ''https://amazon.x/p/1'', product_name = Val ''A'', image_url = Val ''i'',
      specifications = Val [''s''],
      price_history = Val [\<lparr>Value = Num 100, Timestamp = 1\<rparr>, \<lparr>Value = Num 80, Timestamp = 2\<rparr>],
      min_price = Val (Num 80), max_price = Val (Num 100)\<rparr>"

definition tracked_world :: world where
  "tracked_world =
     empty_world\<lparr>db := (\<lambda>c. if c = ''alice'' then [tracked_doc] else []), clock := 3\<rparr>"

definition rescraped_p1 :: models_Product where
  "rescraped_p1 =
     \<lparr>ProductURL = ''https://amazon.x/p/1'', ProductName = ''A2'', ImageURL = ''i2'',
      Specifications = Slice [''s2''], PriceHistory = NilSlice,
      MinPrice = Num 0, MaxPrice = Num 0\<rparr>"

definition stale_p1 :: models_Product where
  "stale_p1 =
     \<lparr>ProductURL = ''https://amazon.x/p/1'', ProductName = ''A2'', ImageURL = ''i2'',
      Specifications = Slice [''s2''], PriceHistory = Slice [\<lparr>Value = Num 100, Timestamp = 1\<rparr>],
      MinPrice = Num 100, MaxPrice = Num 100\<rparr>"

text \<open>A URL that contains the names of both vendors.\<close>

definition both_url :: string where
  "both_url = ''https://www.amazon.in/flipkart-smartbuy/p/1''"

definition both_fresh :: models_Product where
  "both_fresh =
     \<lparr>ProductURL = both_url, ProductName = ''B'', ImageURL = ''i'',
      Specifications = Slice [''s''], PriceHistory = Slice [],
      MinPrice = Num 0, MaxPrice = Num 0\<rparr>"

definition both_doc :: document where
  "both_doc =
     \<lparr>product_url = both_url, product_name = Val ''B'', image_url = Val ''i'',
      specifications = Val [''s''], price_history = Val [],
      min_price = Val (Num 0), max_price = Val (Num 0)\<rparr>"

definition both_world :: world where
  "both_world = empty_world\<lparr>db := (\<lambda>c. []) (''alice'' := [both_doc])\<rparr>"

definition amazon_down_env :: env where
  "amazon_down_env =
     quiet_env\<lparr>ScrapePriceAmazon := (\<lambda>url. (''499'', Some (Err ''amazon: timeout'')))\<rparr>"

definition later_env :: env where
  "later_env = quiet_env\<lparr>ScrapePriceAmazon := (\<lambda>url. (''499'', None))\<rparr>"

text \<open>
  A product that enters the store without a name, and the documents it is stored as:
  after its upsert, after a first refresh at 120, after the repair pass, and after a
  second refresh at 499.
\<close>

definition unnamed_both :: models_Product where
  "unnamed_both = both_fresh\<lparr>ProductName := []\<rparr>"

definition unnamed_doc :: document where
  "unnamed_doc = both_doc\<lparr>product_name := Val []\<rparr>"

definition refreshed_doc :: document where
  "refreshed_doc =
     unnamed_doc\<lparr>price_history := Val [\<lparr>Value = Num 120, Timestamp = 0\<rparr>],
                 min_price := Val (Num 120), max_price := Val (Num 120)\<rparr>"

definition repaired_doc :: document where
  "repaired_doc =
     refreshed_doc\<lparr>product_name := Val ''A2'', image_url := Val ''i2'',
                   specifications := Val [''s2''],
                   min_price := Val (Num 0), max_price := Val (Num 0)\<rparr>"

definition refreshed_again_doc :: document where
  "refreshed_again_doc =
     repaired_doc\<lparr>price_history := Val [\<lparr>Value = Num 120, Timestamp = 0\<rparr>,
                                        \<lparr>Value = Num 499, Timestamp = 1\<rparr>],
                  min_price := Val (Num 499), max_price := Val (Num 499)\<rparr>"

text \<open>Products with the name of one vendor in the URL, not yet refreshed.\<close>

definition flipkart_fresh :: models_Product where
  "flipkart_fresh = both_fresh\<lparr>ProductURL := ''https://flipkart.x/p/7''\<rparr>"

definition amazon_fresh :: models_Product where
  "amazon_fresh = both_fresh\<lparr>ProductURL := ''https://amazon.x/p/1''\<rparr>"

definition fresh_world :: world where
  "fresh_world =
     empty_world\<lparr>db := (\<lambda>c. []) (''alice'' :=
        [both_doc\<lparr>product_url := ''https://flipkart.x/p/7''\<rparr>,
         both_doc\<lparr>product_url := ''https://amazon.x/p/1''\<rparr>])\<rparr>"

definition flip_doc :: document where
  "flip_doc =
     \<lparr>product_url = ''https://flipkart.x/p/7'', product_name = Val ''F'', image_url = Val ''i'',
      specifications = Val [''s''], price_history = Val [], min_price = Absent,
      max_price = Absent\<rparr>"

definition other_doc :: document where
  "other_doc =
     \<lparr>product_url = ''https://example.com/p'', product_name = Val ''E'', image_url = Val ''i'',
      specifications = Val [''s''], price_history = Val [], min_price = Absent,
      max_price = Absent\<rparr>"

definition p2_doc :: document where
  "p2_doc =
     \<lparr>product_url = ''https://amazon.x/p/2'', product_name = Val ''A2'', image_url = Val ''i'',
      specifications = Val [''s''], price_history = Val [], min_price = Absent,
      max_price = Absent\<rparr>"

definition p3_doc :: document where
  "p3_doc =
     \<lparr>product_url = ''https://amazon.x/p/3'', product_name = Val ''A3'', image_url = Val ''i'',
      specifications = Val [''s''], price_history = Val [], min_price = Absent,
      max_price = Absent\<rparr>"

definition bad_doc :: document where
  "bad_doc =
     \<lparr>product_url = ''bad'', product_name = Absent, image_url = Absent,
      specifications = Absent, price_history = Absent, min_price = Absent, max_price = Absent\<rparr>"

definition mixed_world :: world where
  "mixed_world =
     empty_world\<lparr>db := (\<lambda>c. []) (''alice'' := [p1_doc, flip_doc, other_doc, bad_doc, p3_doc, p2_doc])\<rparr>"

definition flaky_env :: env where
  "flaky_env =
     quiet_env\<lparr>ScrapePriceAmazon :=
                 (\<lambda>url. if url = ''https://amazon.x/p/1'' then (''not-a-number'', None)
                        else (''120'', None)),
               ScrapePriceFlipkart := (\<lambda>url. ([], Some (Err ''flipkart: 503''))),
               decode_err := (\<lambda>d. if product_url d = ''bad'' then Some ''cannot decode'' else None),
               update_err :=
                 (\<lambda>c url. if url = ''https://amazon.x/p/3'' then Some ''write failed'' else None)\<rparr>"

definition cypher_handle :: MongoDB where
  "cypher_handle = \<lparr>client = 0, database = ''price_tracker'', collection = ''cypher''\<rparr>"

definition incomplete_doc :: document where
  "incomplete_doc =
     \<lparr>product_url = ''https://amazon.x/p/1'', product_name = Val [], image_url = Absent,
      specifications = Val [],
      price_history = Val [\<lparr>Value = Num 100, Timestamp = 1\<rparr>], min_price = Absent,
      max_price = Absent\<rparr>"

definition cypher_world :: world where
  "cypher_world =
     empty_world\<lparr>db := (\<lambda>c. []) (''cypher'' := [incomplete_doc], ''alice'' := [bad_doc]),
        next_client := 1, connected := [0], clock := 2\<rparr>"



text \<open>The world in which the collection \<open>alice\<close> holds one document.\<close>

definition stored_world :: "document \<Rightarrow> time \<Rightarrow> event list \<Rightarrow> world" where
  "stored_world d t es = empty_world\<lparr>db := (\<lambda>c. []) (''alice'' := [d]), clock := t, out := es\<rparr>"

section \<open>Facts about the store\<close>

text \<open>\<open>Contains\<close> holds exactly when the second string occurs in the first.\<close>

lemma Contains_sublist: "Contains s substr = (\<exists>ps ss. s = ps @ substr @ ss)"
proof (induction s)
  case Nil
  then show ?case by auto
next
  case (Cons c s)
  have "(\<exists>ps ss. c # s = ps @ substr @ ss) =
        (prefix substr (c # s) \<or> (\<exists>ps ss. s = ps @ substr @ ss))"
    using sublist_Cons_right[of substr c s] by (simp add: sublist_def)
  with Cons show ?case by simp
qed

lemma replace_first_no_match:
  "find (\<lambda>d. product_url d = url) ds = None \<Longrightarrow> replace_first url d' ds = ds"
  by (induction ds) (auto split: if_splits)


lemma find_replace_first:
  assumes "product_url d' = url"
  shows "find (\<lambda>d. product_url d = url) (replace_first url d' ds) =
         map_option (\<lambda>d. d') (find (\<lambda>d. product_url d = url) ds)"
  using assms by (induction ds) auto

lemma find_append_new:
  assumes "find (\<lambda>d. product_url d = url) ds = None" and "product_url d' = url"
  shows "find (\<lambda>d. product_url d = url) (ds @ [d']) = Some d'"
  using assms by (induction ds) (auto split: if_splits)

lemma replace_first_twice:
  assumes "product_url d1 = url"
  shows "replace_first url d2 (replace_first url d1 ds) = replace_first url d2 ds"
  using assms by (induction ds) auto

lemma replace_first_found:
  assumes "find (\<lambda>d. product_url d = url) ds = Some d"
  shows "replace_first url d ds = ds"
  using assms by (induction ds) (auto split: if_splits)

lemma update_one_upsert:
  "update_one url (\<lambda>d. Inr (f d)) True ds = Inr (upserted url f ds)"
  by (simp add: update_one_def upserted_def split: option.splits)

lemma find_upserted:
  assumes "\<And>d. product_url (f d) = url"
  shows "find (\<lambda>d. product_url d = url) (upserted url f ds) =
         Some (f (case find (\<lambda>d. product_url d = url) ds of
                    None \<Rightarrow> new_document url | Some d \<Rightarrow> d))"
  using assms by (simp add: upserted_def find_replace_first find_append_new split: option.splits)

lemma upserted_twice:
  assumes "\<And>d. product_url (f d) = url" and "\<And>d. g (f d) = f d"
  shows "upserted url g (upserted url f ds) = upserted url f ds"
proof (cases "find (\<lambda>d. product_url d = url) ds")
  case None
  let ?d = "f (new_document url)"
  have "find (\<lambda>d. product_url d = url) (ds @ [?d]) = Some ?d"
    using None assms(1) by (simp add: find_append_new)
  then have "replace_first url ?d (ds @ [?d]) = ds @ [?d]" by (rule replace_first_found)
  with None assms show ?thesis
    by (simp add: upserted_def find_append_new)
next
  case (Some d)
  have "find (\<lambda>d. product_url d = url) (replace_first url (f d) ds) = Some (f d)"
    using Some assms(1) by (simp add: find_replace_first)
  with Some assms show ?thesis
    by (simp add: upserted_def replace_first_twice)
qed

lemma set_Product_url [simp]: "product_url (set_Product p d) = ProductURL p"
  by (simp add: set_Product_def)

lemma set_Product_twice [simp]: "set_Product p (set_Product p d) = set_Product p d"
  by (simp add: set_Product_def)

lemma encode_decode_slice [simp]: "decode_slice (encode_slice s) = s"
  by (cases s) simp_all

lemma decode_set_Product_history [simp]:
  "PriceHistory (decode_Product (set_Product p d)) = PriceHistory p"
  by (simp add: set_Product_def decode_Product_def)

lemma set_models_Product_url [simp]: "product_url (set_models_Product p d) = ProductURL p"
  by (simp add: set_models_Product_def set_Product_def)

lemma set_models_Product_twice [simp]:
  "set_models_Product p (set_models_Product p d) = set_models_Product p d"
  by (simp add: set_models_Product_def set_Product_def)

lemma decode_set_models_Product_history [simp]:
  "PriceHistory (decode_models_Product (set_models_Product p d)) = PriceHistory p"
  by (simp add: set_models_Product_def set_Product_def decode_models_Product_def)

section \<open>Facts about the upsert\<close>

lemma MongoDB_UpsertProduct_cases:
  "MongoDB_UpsertProduct env m p w =
     (case find_one_err env (collection m) (ProductURL p) of
        Some msg \<Rightarrow> (Some (Errorf ''error checking existing product: '' (Err msg)), p, w)
      | None \<Rightarrow>
          (let p' = (case find (\<lambda>d. product_url d = ProductURL p) (db w (collection m)) of
                       None \<Rightarrow> p
                     | Some d \<Rightarrow> p\<lparr>PriceHistory := PriceHistory (decode_Product d)\<rparr>)
           in case update_err env (collection m) (ProductURL p) of
                Some msg \<Rightarrow> (Some (Err msg), p', w)
              | None \<Rightarrow>
                  (None, p',
                   w\<lparr>db := (db w)(collection m :=
                          upserted (ProductURL p) (set_Product p') (db w (collection m)))\<rparr>)))"
  by (simp add: MongoDB_UpsertProduct_def FindOne_def UpdateOne_def Let_def update_one_upsert
           split: option.splits)

lemma database_UpsertProduct_cases:
  "database_UpsertProduct env p user w =
     (case find_one_err env user (ProductURL p) of
        Some msg \<Rightarrow> (Some (Errorf ''error checking existing product: '' (Err msg)), w)
      | None \<Rightarrow>
          (let p' = (case find (\<lambda>d. product_url d = ProductURL p) (db w user) of
                       None \<Rightarrow> p
                     | Some d \<Rightarrow> p\<lparr>PriceHistory := PriceHistory (decode_models_Product d)\<rparr>)
           in case update_err env user (ProductURL p) of
                Some msg \<Rightarrow> (Some (Err msg), w)
              | None \<Rightarrow>
                  (None,
                   w\<lparr>db := (db w)(user :=
                          upserted (ProductURL p) (set_models_Product p') (db w user))\<rparr>)))"
  by (simp add: database_UpsertProduct_def FindOne_def UpdateOne_def Let_def update_one_upsert
           split: option.splits)

lemma MongoDB_UpsertProduct_again:
  assumes "MongoDB_UpsertProduct env m p w = (None, p', w')"
  shows "snd (snd (MongoDB_UpsertProduct env2 m p w')) = w'"
    and "snd (snd (MongoDB_UpsertProduct env2 m p' w')) = w'"
proof -
  let ?c = "collection m" and ?u = "ProductURL p"
  from assms have p': "p' = (case find (\<lambda>d. product_url d = ?u) (db w ?c) of
                       None \<Rightarrow> p
                     | Some d \<Rightarrow> p\<lparr>PriceHistory := PriceHistory (decode_Product d)\<rparr>)"
    and w': "w' = w\<lparr>db := (db w)(?c := upserted ?u (set_Product p') (db w ?c))\<rparr>"
    by (auto simp: MongoDB_UpsertProduct_cases Let_def split: option.splits)
  have u: "ProductURL p' = ?u" by (simp add: p' split: option.splits)
  have f: "find (\<lambda>d. product_url d = ?u) (db w' ?c) =
           Some (set_Product p' (case find (\<lambda>d. product_url d = ?u) (db w ?c) of
                      None \<Rightarrow> new_document ?u | Some d \<Rightarrow> d))"
    by (simp add: w' find_upserted u)
  have m1: "p\<lparr>PriceHistory := PriceHistory p'\<rparr> = p'" by (simp add: p' split: option.splits)
  have m2: "p'\<lparr>PriceHistory := PriceHistory p'\<rparr> = p'" by simp
  have t: "upserted ?u (set_Product p') (db w' ?c) = db w' ?c"
    by (simp add: w' upserted_twice u)
  have k: "w'\<lparr>db := (db w')(?c := db w' ?c)\<rparr> = w'" by simp
  show "snd (snd (MongoDB_UpsertProduct env2 m p w')) = w'"
    by (simp add: MongoDB_UpsertProduct_cases f m1 t k Let_def split: option.splits)
  show "snd (snd (MongoDB_UpsertProduct env2 m p' w')) = w'"
    by (simp add: MongoDB_UpsertProduct_cases u f m2 t k Let_def split: option.splits)
qed

lemma MongoDB_UpsertProduct_failed:
  assumes "MongoDB_UpsertProduct env m p w = (Some e, p', w')"
  shows "w' = w"
  using assms by (auto simp: MongoDB_UpsertProduct_cases Let_def split: option.splits)

lemma MongoDB_UpsertProduct_url:
  assumes "MongoDB_UpsertProduct env m p w = (r, p', w')"
  shows "ProductURL p' = ProductURL p"
  using assms by (auto simp: MongoDB_UpsertProduct_cases Let_def split: option.splits)

lemma MongoDB_UpsertProduct_fails_again:
  assumes "MongoDB_UpsertProduct env m p w = (Some e, p', w')"
    and "ProductURL q = ProductURL p"
  shows "snd (snd (MongoDB_UpsertProduct env m q w)) = w"
  using assms by (auto simp: MongoDB_UpsertProduct_cases Let_def split: option.splits)

lemma database_UpsertProduct_again:
  assumes "database_UpsertProduct env p user w = (None, w')"
  shows "snd (database_UpsertProduct env2 p user w') = w'"
proof -
  let ?u = "ProductURL p"
  define p' where "p' = (case find (\<lambda>d. product_url d = ?u) (db w user) of
                       None \<Rightarrow> p
                     | Some d \<Rightarrow> p\<lparr>PriceHistory := PriceHistory (decode_models_Product d)\<rparr>)"
  from assms have w': "w' = w\<lparr>db := (db w)(user := upserted ?u (set_models_Product p') (db w user))\<rparr>"
    by (auto simp: database_UpsertProduct_cases Let_def p'_def split: option.splits)
  have u: "ProductURL p' = ?u" by (simp add: p'_def split: option.splits)
  have f: "find (\<lambda>d. product_url d = ?u) (db w' user) =
           Some (set_models_Product p' (case find (\<lambda>d. product_url d = ?u) (db w user) of
                      None \<Rightarrow> new_document ?u | Some d \<Rightarrow> d))"
    by (simp add: w' find_upserted u)
  have m1: "p\<lparr>PriceHistory := PriceHistory p'\<rparr> = p'" by (simp add: p'_def split: option.splits)
  have t: "upserted ?u (set_models_Product p') (db w' user) = db w' user"
    by (simp add: w' upserted_twice u)
  have k: "w'\<lparr>db := (db w')(user := db w' user)\<rparr> = w'" by simp
  show ?thesis
    by (simp add: database_UpsertProduct_cases f m1 t k Let_def split: option.splits)
qed

lemma database_UpsertProduct_failed:
  assumes "database_UpsertProduct env p user w = (Some e, w')"
  shows "w' = w"
  using assms by (auto simp: database_UpsertProduct_cases Let_def split: option.splits)



text \<open>
  What an upsert over a stored product leaves in the store. The history is the stored
  one as it decodes and is encoded again: an array stays, an absent or null history
  becomes null. In \<^verbatim>\<open>mongo.go\<close> the struct has no aggregates, so \<open>$set\<close> leaves
  \<open>min_price\<close> and \<open>max_price\<close> of the document as they were. In package \<open>database\<close> the
  struct has them, lines 59 and 60 that would copy the stored ones are commented out,
  and \<open>$set\<close> writes those of the incoming product.
\<close>

lemma MongoDB_UpsertProduct_stored:
  assumes "find (\<lambda>d. product_url d = ProductURL p) (db w (collection m)) = Some d"
    and "MongoDB_UpsertProduct env m p w = (None, p', w')"
  shows "find (\<lambda>d. product_url d = ProductURL p) (db w' (collection m)) =
           Some (d\<lparr>product_name := Val (ProductName p), image_url := Val (ImageURL p),
                   specifications := encode_slice (Specifications p),
                   price_history := encode_slice (decode_slice (price_history d))\<rparr>)"
proof -
  from assms(1) have "product_url d = ProductURL p"
    by (auto simp: find_Some_iff)
  then have "d\<lparr>product_url := ProductURL p\<rparr> = d" by simp
  with assms show ?thesis
    by (auto simp: MongoDB_UpsertProduct_cases Let_def find_upserted set_Product_def
             decode_Product_def split: option.splits)
qed

lemma database_UpsertProduct_stored:
  assumes "find (\<lambda>d. product_url d = ProductURL p) (db w user) = Some d"
    and "database_UpsertProduct env p user w = (None, w')"
  shows "find (\<lambda>d. product_url d = ProductURL p) (db w' user) =
           Some (d\<lparr>product_name := Val (ProductName p), image_url := Val (ImageURL p),
                   specifications := encode_slice (Specifications p),
                   price_history := encode_slice (decode_slice (price_history d)),
                   min_price := Val (MinPrice p), max_price := Val (MaxPrice p)\<rparr>)"
proof -
  from assms(1) have "product_url d = ProductURL p"
    by (auto simp: find_Some_iff)
  then have "d\<lparr>product_url := ProductURL p\<rparr> = d" by simp
  with assms show ?thesis
    by (auto simp: database_UpsertProduct_cases Let_def find_upserted set_Product_def
             set_models_Product_def decode_models_Product_def split: option.splits)
qed

section \<open>Facts about the refresh\<close>

lemma MongoDB_UpdatePrices_push_out:
  "\<exists>e. out (MongoDB_UpdatePrices_push env m product cp w) = out w @ [e] \<and> \<not> is_call e"
  by (auto simp: MongoDB_UpdatePrices_push_def time_Now_def UpdateOne_def emit_def
           split: option.splits sum.splits)

lemma MongoDB_UpdatePrices_item_out:
  "\<exists>e. out (MongoDB_UpdatePrices_item env m d w) = out w @ expected_calls env d @ [e] \<and> \<not> is_call e"
proof (cases "cursor_Decode env d")
  case (Inl err)
  then show ?thesis by (simp add: MongoDB_UpdatePrices_item_def expected_calls_def emit_def)
next
  case (Inr product)
  show ?thesis
  proof (cases "Contains (ProductURL product) ''flipkart''")
    case True
    obtain priceStr err where s: "ScrapePriceFlipkart env (ProductURL product) = (priceStr, err)"
      by (cases "ScrapePriceFlipkart env (ProductURL product)") auto
    let ?w1 = "emit (CallScrapePrice Flipkart (ProductURL product)) w"
    from MongoDB_UpdatePrices_push_out[of env m product _ ?w1]
    show ?thesis using Inr True s
      by (auto simp: MongoDB_UpdatePrices_item_def expected_calls_def emit_def Let_def
               split: option.splits sum.splits)
  next
    case False
    show ?thesis
    proof (cases "Contains (ProductURL product) ''amazon''")
      case True
      obtain priceStr err where s: "ScrapePriceAmazon env (ProductURL product) = (priceStr, err)"
        by (cases "ScrapePriceAmazon env (ProductURL product)") auto
      let ?w1 = "emit (CallScrapePrice Amazon (ProductURL product)) w"
      from MongoDB_UpdatePrices_push_out[of env m product _ ?w1]
      show ?thesis using Inr True False s
        by (auto simp: MongoDB_UpdatePrices_item_def expected_calls_def emit_def Let_def
                 split: option.splits sum.splits)
    next
      case F: False
      with Inr False show ?thesis
        by (simp add: MongoDB_UpdatePrices_item_def expected_calls_def emit_def)
    qed
  qed
qed

lemma expected_calls_are_calls: "filter is_call (expected_calls env d) = expected_calls env d"
  by (simp add: expected_calls_def split: sum.splits)

lemma MongoDB_UpdatePrices_loop_out:
  "\<exists>es. out (MongoDB_UpdatePrices_loop env m cursor w) = out w @ es \<and>
        filter is_call es = concat (map (expected_calls env) cursor) \<and>
        length (filter (\<lambda>e. \<not> is_call e) es) = length cursor"
proof (induction cursor arbitrary: w)
  case Nil
  then show ?case by simp
next
  case (Cons d cursor)
  from MongoDB_UpdatePrices_item_out[of env m d w] obtain e where
    e: "out (MongoDB_UpdatePrices_item env m d w) = out w @ expected_calls env d @ [e]" "\<not> is_call e"
    by blast
  from Cons.IH[of "MongoDB_UpdatePrices_item env m d w"] obtain es where
    es: "out (MongoDB_UpdatePrices_loop env m cursor (MongoDB_UpdatePrices_item env m d w)) =
           out (MongoDB_UpdatePrices_item env m d w) @ es"
      "filter is_call es = concat (map (expected_calls env) cursor)"
      "length (filter (\<lambda>e. \<not> is_call e) es) = length cursor" by blast
  have nc: "filter (\<lambda>e. \<not> is_call e) (expected_calls env d) = []"
    by (simp add: expected_calls_def split: sum.splits)
  let ?es = "expected_calls env d @ [e] @ es"
  have "out (MongoDB_UpdatePrices_loop env m (d # cursor) w) = out w @ ?es"
    using e es by simp
  moreover have "filter is_call ?es = concat (map (expected_calls env) (d # cursor))"
    using e es by (simp add: expected_calls_are_calls)
  moreover have "length (filter (\<lambda>e. \<not> is_call e) ?es) = length (d # cursor)"
    using e es nc by simp
  ultimately show ?case by blast
qed

text \<open>
  In \<^verbatim>\<open>mongo.go\<close> a failed scrape ends the turn: the call and the diagnostic are the
  only effects, no document changes, and the loop goes on with the rest of the cursor.
\<close>

lemma MongoDB_UpdatePrices_item_scrape_error:
  assumes "cursor_Decode env d = Inr product"
    and "(Contains (ProductURL product) ''flipkart'' \<and> v = Flipkart \<and>
          snd (ScrapePriceFlipkart env (ProductURL product)) = Some e) \<or>
         (\<not> Contains (ProductURL product) ''flipkart'' \<and>
          Contains (ProductURL product) ''amazon'' \<and> v = Amazon \<and>
          snd (ScrapePriceAmazon env (ProductURL product)) = Some e)"
  shows "MongoDB_UpdatePrices_item env m d w =
           emit (ErrorScrapingPrice v (ProductURL product) e)
             (emit (CallScrapePrice v (ProductURL product)) w)"
    and "db (MongoDB_UpdatePrices_item env m d w) = db w"
    and "MongoDB_UpdatePrices_loop env m (d # cursor) w =
           MongoDB_UpdatePrices_loop env m cursor
             (emit (ErrorScrapingPrice v (ProductURL product) e)
                (emit (CallScrapePrice v (ProductURL product)) w))"
proof -
  show a: "MongoDB_UpdatePrices_item env m d w =
           emit (ErrorScrapingPrice v (ProductURL product) e)
             (emit (CallScrapePrice v (ProductURL product)) w)"
    using assms
    by (auto simp: MongoDB_UpdatePrices_item_def Let_def split: prod.splits)
  then show "db (MongoDB_UpdatePrices_item env m d w) = db w"
    by (simp add: emit_def)
  from a show "MongoDB_UpdatePrices_loop env m (d # cursor) w =
           MongoDB_UpdatePrices_loop env m cursor
             (emit (ErrorScrapingPrice v (ProductURL product) e)
                (emit (CallScrapePrice v (ProductURL product)) w))"
    by simp
qed

text \<open>
  What the nesting of \<open>UpdatePrices\<close> of package \<open>database\<close> does to the dispatch: a URL
  without \<open>flipkart\<close> returns nil at once, with no call and no diagnostic, also when it
  contains \<open>amazon\<close>; a URL with \<open>flipkart\<close> and without \<open>amazon\<close> has its Flipkart price
  scraped and parsed and is then reported as an unsupported vendor.
\<close>

lemma database_UpdatePrices_without_flipkart:
  assumes "\<not> Contains (ProductURL product) ''flipkart''"
  shows "database_UpdatePrices env user product w = (None, product, w)"
  using assms by (simp add: database_UpdatePrices_def)

lemma database_UpdatePrices_flipkart_only:
  assumes "Contains (ProductURL product) ''flipkart''"
    and "\<not> Contains (ProductURL product) ''amazon''"
    and "ScrapePriceFlipkart env (ProductURL product) = (priceStr, None)"
    and "ParseFloat env priceStr = Inr currentPrice"
  shows "database_UpdatePrices env user product w =
           (None, product,
            emit (UnsupportedVendor (ProductURL product))
              (emit (CallScrapePrice Flipkart (ProductURL product)) w))"
  using assms by (simp add: database_UpdatePrices_def)

text \<open>
  The aggregate step of lines 108 to 113 by itself: the minimum becomes the price
  exactly when it is 0 or the price is below it, the maximum exactly when it is 0 or
  the price is above it, and from 0 and 0 both become the price.
\<close>

lemma update_aggregates_fields:
  "MinPrice (update_aggregates p product) =
     (if MinPrice product = Num 0 \<or> float64_less p (MinPrice product) then p else MinPrice product)"
  "MaxPrice (update_aggregates p product) =
     (if MaxPrice product = Num 0 \<or> float64_less (MaxPrice product) p then p else MaxPrice product)"
  "MinPrice product = Num 0 \<and> MaxPrice product = Num 0 \<Longrightarrow>
     MinPrice (update_aggregates p product) = p \<and> MaxPrice (update_aggregates p product) = p"
  by (simp_all add: update_aggregates_def Let_def)

section \<open>Facts about the repair pass\<close>










lemma put_collection_same [simp]: "put_collection c (db w c) w = w"
  by (simp add: put_collection_def)

lemma db_put_collection [simp]: "db (put_collection c ds w) = (db w)(c := ds)"
  by (simp add: put_collection_def)

lemma out_put_collection [simp]: "out (put_collection c ds w) = out w"
  by (simp add: put_collection_def)

lemma emit_put_collection [simp]: "emit e (put_collection c ds w) = put_collection c ds (emit e w)"
  by (simp add: put_collection_def emit_def)

lemma Close_put_collection [simp]:
  "MongoDB_Close h (put_collection c ds w) = put_collection c ds (MongoDB_Close h w)"
  by (simp add: put_collection_def MongoDB_Close_def)

lemma FindOne_put_collection [simp]:
  "c \<noteq> c' \<Longrightarrow> FindOne env c' url (put_collection c ds w) = FindOne env c' url w"
  by (simp add: FindOne_def split: option.splits)

lemma Find_put_collection [simp]:
  "c \<noteq> c' \<Longrightarrow> Find env c' flt (put_collection c ds w) = Find env c' flt w"
  by (simp add: Find_def split: option.splits)

lemma UpdateOne_put_collection:
  "c \<noteq> c' \<Longrightarrow> UpdateOne env c' url f up (put_collection c ds w) =
     (case UpdateOne env c' url f up w of (r, w') \<Rightarrow> (r, put_collection c ds w'))"
  by (auto simp: UpdateOne_def put_collection_def fun_upd_twist split: option.splits sum.splits)

lemma NewMongoDB_put_collection:
  "NewMongoDB env uri u (put_collection c ds w) =
     (case NewMongoDB env uri u w of (r, w') \<Rightarrow> (r, put_collection c ds w'))"
  by (auto simp: NewMongoDB_def put_collection_def Let_def split: option.splits)

lemma MongoDB_UpsertProduct_put_collection:
  "c \<noteq> collection h \<Longrightarrow> MongoDB_UpsertProduct env h p (put_collection c ds w) =
     (case MongoDB_UpsertProduct env h p w of (r, p', w') \<Rightarrow> (r, p', put_collection c ds w'))"
  by (auto simp: MongoDB_UpsertProduct_def UpdateOne_put_collection Let_def
           split: sum.splits prod.splits)

lemma MongoDB_UpdateIncompleteRecords_item_put_collection:
  "c \<noteq> collection h \<Longrightarrow>
   MongoDB_UpdateIncompleteRecords_item env h d (put_collection c ds w) =
     put_collection c ds (MongoDB_UpdateIncompleteRecords_item env h d w)"
  by (auto simp: MongoDB_UpdateIncompleteRecords_item_def MongoDB_UpsertProduct_put_collection
        Let_def split: sum.splits prod.splits option.splits)

lemma MongoDB_UpdateIncompleteRecords_loop_put_collection:
  "c \<noteq> collection h \<Longrightarrow>
   MongoDB_UpdateIncompleteRecords_loop env h cursor (put_collection c ds w) =
     put_collection c ds (MongoDB_UpdateIncompleteRecords_loop env h cursor w)"
  by (induction cursor arbitrary: w)
     (simp_all add: MongoDB_UpdateIncompleteRecords_item_put_collection)

lemma NewMongoDB_collection:
  "NewMongoDB env uri u w = (Inr h, w') \<Longrightarrow>
     collection h = u \<and> client h = next_client w \<and> next_client w' = Suc (next_client w)"
  by (auto simp: NewMongoDB_def Let_def split: option.splits)

lemma MongoDB_UpdateIncompleteRecords_put_collection:
  assumes "c \<noteq> ''cypher''"
  shows "MongoDB_UpdateIncompleteRecords env h (put_collection c ds w) =
     (case MongoDB_UpdateIncompleteRecords env h w of (r, w') \<Rightarrow> (r, put_collection c ds w'))"
proof (cases "NewMongoDB env (MongoURI env) ''cypher'' w")
  case (Pair res w1)
  show ?thesis
  proof (cases res)
    case (Inl err)
    with Pair show ?thesis
      by (simp add: MongoDB_UpdateIncompleteRecords_def NewMongoDB_put_collection)
  next
    case (Inr dbh)
    with Pair NewMongoDB_collection[of env "MongoURI env" "''cypher''" w dbh w1]
    have c: "c \<noteq> collection dbh" using assms by simp
    with Pair Inr show ?thesis
      by (simp add: MongoDB_UpdateIncompleteRecords_def NewMongoDB_put_collection Let_def
            MongoDB_UpdateIncompleteRecords_loop_put_collection split: sum.splits)
  qed
qed

section \<open>Facts about the example data\<close>

lemma Contains_both_url: "Contains both_url ''flipkart''" "Contains both_url ''amazon''"
  by (simp_all add: both_url_def)

lemma Contains_p1:
  "\<not> Contains ''https://amazon.x/p/1'' ''flipkart''" "Contains ''https://amazon.x/p/1'' ''amazon''"
  by simp_all

lemma Contains_examples:
  "Contains ''https://flipkart.x/p/7'' ''flipkart''"
  "\<not> Contains ''https://flipkart.x/p/7'' ''amazon''"
  "\<not> Contains ''https://example.com/p'' ''flipkart''"
  "\<not> Contains ''https://example.com/p'' ''amazon''"
  "\<not> Contains ''https://amazon.x/p/2'' ''flipkart''"
  "Contains ''https://amazon.x/p/2'' ''amazon''"
  "\<not> Contains ''https://amazon.x/p/3'' ''flipkart''"
  "Contains ''https://amazon.x/p/3'' ''amazon''"
  "\<not> Contains ''bad'' ''flipkart''" "\<not> Contains ''bad'' ''amazon''"
  by simp_all

lemma example_ParseFloat_values:
  "example_ParseFloat ''50'' = Inr (Num 50)" "example_ParseFloat ''120'' = Inr (Num 120)"
  "example_ParseFloat ''499'' = Inr (Num 499)"
  "example_ParseFloat ''not-a-number'' = Inl (Err ''strconv.ParseFloat: invalid syntax'')"
  by (simp_all add: example_ParseFloat_def)

lemmas eval_defs =
  MongoDB_UpdatePrices_def Find_def MongoDB_UpdatePrices_item_def
  cursor_Decode_def decode_Product_def MongoDB_UpdatePrices_push_def time_Now_def
  UpdateOne_def update_one_def emit_def push_price_def example_ParseFloat_values
  Contains_examples Contains_p1
  quiet_env_def flaky_env_def alice_def mixed_world_def empty_world_def
  p1_doc_def flip_doc_def other_doc_def bad_doc_def p2_doc_def p3_doc_def

lemmas repair_defs =
  MongoDB_UpdateIncompleteRecords_def NewMongoDB_def Let_def emit_def Find_def
  MongoDB_UpdateIncompleteRecords_item_def cursor_Decode_def decode_Product_def
  MongoDB_UpsertProduct_cases upserted_def MongoDB_Close_def set_Product_def
  incomplete_filter_def quiet_env_def empty_world_def

section \<open>Claims\<close>

text \<open>
  Claim C1. An upsert over a stored product must leave its price history, minimum and
  maximum as they were. \<open>UpsertProduct\<close> of package \<open>database\<close> keeps the history and
  overwrites the aggregates with those of the incoming product. A product stored with
  the history 100, 80 and the aggregates 80 and 100 is upserted again with new
  descriptive fields: by a caller that read it after its first price, with the
  aggregates 100 and 100 of that moment, and by one that scraped it afresh, with the
  aggregates 0 and 0. The history is kept and the stored aggregates become 100 and 100,
  and 0 and 0.
\<close>

theorem database_UpsertProduct_resets_aggregates:
  "db tracked_world ''alice'' = [tracked_doc] \<and>
   database_UpsertProduct quiet_env stale_p1 ''alice'' tracked_world =
     (None, tracked_world\<lparr>db := (db tracked_world)(''alice'' :=
        [tracked_doc\<lparr>product_name := Val ''A2'', image_url := Val ''i2'',
                     specifications := Val [''s2''],
                     min_price := Val (Num 100), max_price := Val (Num 100)\<rparr>])\<rparr>) \<and>
   database_UpsertProduct quiet_env rescraped_p1 ''alice'' tracked_world =
     (None, tracked_world\<lparr>db := (db tracked_world)(''alice'' :=
        [tracked_doc\<lparr>product_name := Val ''A2'', image_url := Val ''i2'',
                     specifications := Val [''s2''],
                     min_price := Val (Num 0), max_price := Val (Num 0)\<rparr>])\<rparr>)"
  by (simp add: database_UpsertProduct_cases upserted_def quiet_env_def rescraped_p1_def
        stale_p1_def tracked_world_def tracked_doc_def empty_world_def set_models_Product_def
        set_Product_def decode_models_Product_def)

text \<open>
  Claim C2. After every successful refresh the stored minimum and maximum must be those
  of the price history, in every state the operations reach from an empty store. In
  package \<open>database\<close> four operations from the empty store break it. A product without a
  name is upserted; a refresh at 120 leaves history 120 and aggregates 120 and 120, which
  are consistent; the repair pass upserts the scraped details over it, and that upsert
  keeps the history and writes the aggregates 0 and 0 of the scraped product; the next
  refresh, handed the product as stored, takes 0 for "no price yet" and at 499 writes
  499 as minimum and maximum over the history 120, 499.
\<close>

theorem aggregates_broken_by_repair_pass:
  "database_UpsertProduct quiet_env unnamed_both ''alice'' empty_world =
     (None, stored_world unnamed_doc 0 []) \<and>
   database_UpdatePrices quiet_env ''alice'' (decode_models_Product unnamed_doc)
       (stored_world unnamed_doc 0 []) =
     (None, unnamed_both\<lparr>MinPrice := Num 120, MaxPrice := Num 120\<rparr>,
      stored_world refreshed_doc 1
        [CallScrapePrice Flipkart both_url, CallScrapePrice Amazon both_url, Println ''120'',
         UpdatedPrice [] (Num 120)]) \<and>
   spec_aggregates_consistent (decode_models_Product refreshed_doc) \<and>
   database_UpdateIncompleteRecords quiet_env ''alice''
       (stored_world refreshed_doc 1
          [CallScrapePrice Flipkart both_url, CallScrapePrice Amazon both_url, Println ''120'',
           UpdatedPrice [] (Num 120)]) =
     (Returned None,
      stored_world repaired_doc 1
        [CallScrapePrice Flipkart both_url, CallScrapePrice Amazon both_url, Println ''120'',
         UpdatedPrice [] (Num 120), ProcessingIncompleteRecords,
         CallScrapeProductDetails both_url, SuccessfullyUpdatedProduct both_url]) \<and>
   fst (database_UpdatePrices later_env ''alice'' (decode_models_Product repaired_doc)
          (stored_world repaired_doc 1
             [CallScrapePrice Flipkart both_url, CallScrapePrice Amazon both_url, Println ''120'',
              UpdatedPrice [] (Num 120), ProcessingIncompleteRecords,
              CallScrapeProductDetails both_url, SuccessfullyUpdatedProduct both_url])) = None \<and>
   db (snd (snd (database_UpdatePrices later_env ''alice'' (decode_models_Product repaired_doc)
          (stored_world repaired_doc 1
             [CallScrapePrice Flipkart both_url, CallScrapePrice Amazon both_url, Println ''120'',
              UpdatedPrice [] (Num 120), ProcessingIncompleteRecords,
              CallScrapeProductDetails both_url, SuccessfullyUpdatedProduct both_url]))))
      ''alice'' = [refreshed_again_doc] \<and>
   price_history refreshed_again_doc =
     Val [\<lparr>Value = Num 120, Timestamp = 0\<rparr>, \<lparr>Value = Num 499, Timestamp = 1\<rparr>] \<and>
   min_price refreshed_again_doc = Val (Num 499) \<and>
   \<not> spec_aggregates_consistent (decode_models_Product refreshed_again_doc)"
proof -
  have a: "database_UpsertProduct quiet_env unnamed_both ''alice'' empty_world =
     (None, stored_world unnamed_doc 0 [])"
    by (simp add: database_UpsertProduct_cases upserted_def quiet_env_def unnamed_both_def
          both_fresh_def empty_world_def stored_world_def unnamed_doc_def both_doc_def
          set_models_Product_def set_Product_def new_document_def)
  have b: "database_UpdatePrices quiet_env ''alice'' (decode_models_Product unnamed_doc)
       (stored_world unnamed_doc 0 []) =
     (None, unnamed_both\<lparr>MinPrice := Num 120, MaxPrice := Num 120\<rparr>,
      stored_world refreshed_doc 1
        [CallScrapePrice Flipkart both_url, CallScrapePrice Amazon both_url, Println ''120'',
         UpdatedPrice [] (Num 120)])"
    by (simp add: database_UpdatePrices_def Contains_both_url quiet_env_def
          decode_models_Product_def unnamed_both_def both_fresh_def unnamed_doc_def both_doc_def
          example_ParseFloat_values database_UpdatePrices_store_def update_aggregates_def
          time_Now_def UpdateOne_def update_one_def emit_def stored_world_def empty_world_def
          refreshed_doc_def push_price_set_aggregates_def push_price_def Let_def)
  have c: "spec_aggregates_consistent (decode_models_Product refreshed_doc)"
    by (simp add: spec_aggregates_consistent_def decode_models_Product_def refreshed_doc_def
          unnamed_doc_def both_doc_def float64_le_def)
  have d: "database_UpdateIncompleteRecords quiet_env ''alice''
       (stored_world refreshed_doc 1
          [CallScrapePrice Flipkart both_url, CallScrapePrice Amazon both_url, Println ''120'',
           UpdatedPrice [] (Num 120)]) =
     (Returned None,
      stored_world repaired_doc 1
        [CallScrapePrice Flipkart both_url, CallScrapePrice Amazon both_url, Println ''120'',
         UpdatedPrice [] (Num 120), ProcessingIncompleteRecords,
         CallScrapeProductDetails both_url, SuccessfullyUpdatedProduct both_url])"
    by (simp add: database_UpdateIncompleteRecords_def Find_def incomplete_filter_def
          database_UpdateIncompleteRecords_item_def cursor_Decode_models_def
          decode_models_Product_def database_UpsertProduct_cases upserted_def
          set_models_Product_def set_Product_def quiet_env_def emit_def stored_world_def
          empty_world_def refreshed_doc_def repaired_doc_def unnamed_doc_def both_doc_def Let_def)
  have e: "database_UpdatePrices later_env ''alice'' (decode_models_Product repaired_doc)
          (stored_world repaired_doc 1
             [CallScrapePrice Flipkart both_url, CallScrapePrice Amazon both_url, Println ''120'',
              UpdatedPrice [] (Num 120), ProcessingIncompleteRecords,
              CallScrapeProductDetails both_url, SuccessfullyUpdatedProduct both_url]) =
     (None, (decode_models_Product repaired_doc)\<lparr>MinPrice := Num 499, MaxPrice := Num 499\<rparr>,
      stored_world refreshed_again_doc 2
        [CallScrapePrice Flipkart both_url, CallScrapePrice Amazon both_url, Println ''120'',
         UpdatedPrice [] (Num 120), ProcessingIncompleteRecords,
         CallScrapeProductDetails both_url, SuccessfullyUpdatedProduct both_url,
         CallScrapePrice Flipkart both_url, CallScrapePrice Amazon both_url, Println ''499'',
         UpdatedPrice ''A2'' (Num 499)])"
    by (simp add: database_UpdatePrices_def Contains_both_url quiet_env_def later_env_def
          decode_models_Product_def repaired_doc_def refreshed_doc_def unnamed_doc_def
          both_doc_def example_ParseFloat_values database_UpdatePrices_store_def
          update_aggregates_def time_Now_def UpdateOne_def update_one_def emit_def
          stored_world_def empty_world_def refreshed_again_doc_def
          push_price_set_aggregates_def push_price_def Let_def)
  have f: "\<not> spec_aggregates_consistent (decode_models_Product refreshed_again_doc)"
    by (simp add: spec_aggregates_consistent_def decode_models_Product_def
          refreshed_again_doc_def repaired_doc_def refreshed_doc_def unnamed_doc_def both_doc_def
          float64_le_def)
  have g: "price_history refreshed_again_doc =
     Val [\<lparr>Value = Num 120, Timestamp = 0\<rparr>, \<lparr>Value = Num 499, Timestamp = 1\<rparr>] \<and>
   min_price refreshed_again_doc = Val (Num 499)"
    by (simp add: refreshed_again_doc_def)
  from a b c d e f g show ?thesis by (simp add: stored_world_def)
qed

text \<open>
  Claim C3, as amended. In the refresh pipeline of \<^verbatim>\<open>mongo.go\<close> the price scrapers
  are called, product by product in scan order, as follows: the Flipkart scraper when
  the URL contains \<open>flipkart\<close>; the Amazon scraper when the URL contains \<open>amazon\<close> and
  does not contain \<open>flipkart\<close>; none when it contains neither, and then the only effect
  of the turn is the unsupported-vendor diagnostic. Each turn makes at most one call
  and ends with one report.
\<close>

theorem MongoDB_UpdatePrices_dispatch:
  "(find_err env (collection m) = None \<longrightarrow>
      (\<exists>es. out (snd (MongoDB_UpdatePrices env m w)) = out w @ es \<and>
            filter is_call es = concat (map (expected_calls env) (db w (collection m))))) \<and>
   (cursor_Decode env d = Inr product \<longrightarrow>
      (\<exists>e. \<not> is_call e \<and>
           out (MongoDB_UpdatePrices_item env m d w) =
             out w @
             (if Contains (ProductURL product) ''flipkart''
              then [CallScrapePrice Flipkart (ProductURL product)]
              else if Contains (ProductURL product) ''amazon''
              then [CallScrapePrice Amazon (ProductURL product)]
              else []) @ [e]) \<and>
      (\<not> Contains (ProductURL product) ''flipkart'' \<and>
       \<not> Contains (ProductURL product) ''amazon'' \<longrightarrow>
         MongoDB_UpdatePrices_item env m d w = emit (UnsupportedVendor (ProductURL product)) w))"
proof (intro conjI impI)
  assume "find_err env (collection m) = None"
  with MongoDB_UpdatePrices_loop_out[of env m "db w (collection m)" w]
  show "\<exists>es. out (snd (MongoDB_UpdatePrices env m w)) = out w @ es \<and>
            filter is_call es = concat (map (expected_calls env) (db w (collection m)))"
    by (auto simp: MongoDB_UpdatePrices_def Find_def)
next
  assume d: "cursor_Decode env d = Inr product"
  with MongoDB_UpdatePrices_item_out[of env m d w]
  show "\<exists>e. \<not> is_call e \<and>
           out (MongoDB_UpdatePrices_item env m d w) =
             out w @
             (if Contains (ProductURL product) ''flipkart''
              then [CallScrapePrice Flipkart (ProductURL product)]
              else if Contains (ProductURL product) ''amazon''
              then [CallScrapePrice Amazon (ProductURL product)]
              else []) @ [e]"
    by (auto simp: expected_calls_def)
next
  assume "cursor_Decode env d = Inr product"
    and "\<not> Contains (ProductURL product) ''flipkart'' \<and> \<not> Contains (ProductURL product) ''amazon''"
  then show "MongoDB_UpdatePrices_item env m d w = emit (UnsupportedVendor (ProductURL product)) w"
    by (simp add: MongoDB_UpdatePrices_item_def)
qed

theorem MongoDB_UpdatePrices_dispatch_witness:
  "out (snd (MongoDB_UpdatePrices quiet_env alice mixed_world)) =
     [CallScrapePrice Amazon ''https://amazon.x/p/1'', UpdatedPrice ''A'' (Num 120),
      CallScrapePrice Flipkart ''https://flipkart.x/p/7'', UpdatedPrice ''F'' (Num 50),
      UnsupportedVendor ''https://example.com/p'',
      UnsupportedVendor ''bad'',
      CallScrapePrice Amazon ''https://amazon.x/p/3'', UpdatedPrice ''A3'' (Num 120),
      CallScrapePrice Amazon ''https://amazon.x/p/2'', UpdatedPrice ''A2'' (Num 120)]"
  using MongoDB_UpdatePrices_dispatch [of quiet_env alice mixed_world other_doc "decode_Product other_doc"]
  by (simp add: eval_defs)

text \<open>
  Claim C3 as stated fails: for a URL that contains \<open>amazon\<close> and \<open>flipkart\<close> the
  pipeline calls the Flipkart scraper only.
\<close>

theorem dispatch_counterexample:
  "Contains both_url ''amazon'' \<and>
   db both_world (collection alice) = [both_doc] \<and>
   out (snd (MongoDB_UpdatePrices quiet_env alice both_world)) =
     [CallScrapePrice Flipkart both_url, UpdatedPrice ''B'' (Num 50)]"
  by (simp add: MongoDB_UpdatePrices_def Find_def MongoDB_UpdatePrices_item_def
        cursor_Decode_def decode_Product_def MongoDB_UpdatePrices_push_def time_Now_def
        UpdateOne_def update_one_def emit_def push_price_def example_ParseFloat_values
        Contains_both_url quiet_env_def alice_def both_world_def empty_world_def both_doc_def)

text \<open>
  Claim C4. A product whose price scrape fails must be skipped, with nothing appended
  to its history. In \<open>UpdatePrices\<close> of package \<open>database\<close> the Amazon branch logs the
  scrape error and does not return (line 94 to 96, where the Flipkart branch returns on
  line 83): the string that came with the error is parsed, and when it parses the price
  is appended and the aggregates are written.
\<close>

theorem database_UpdatePrices_appends_after_scrape_error:
  "ScrapePriceAmazon amazon_down_env both_url = (''499'', Some (Err ''amazon: timeout'')) \<and>
   db both_world ''alice'' = [both_doc] \<and>
   database_UpdatePrices amazon_down_env ''alice'' both_fresh both_world =
     (None, both_fresh\<lparr>MinPrice := Num 499, MaxPrice := Num 499\<rparr>,
      both_world\<lparr>db := (\<lambda>c. []) (''alice'' :=
          [both_doc\<lparr>price_history := Val [\<lparr>Value = Num 499, Timestamp = 0\<rparr>],
                    min_price := Val (Num 499), max_price := Val (Num 499)\<rparr>]),
        clock := 1,
        out := [CallScrapePrice Flipkart both_url, CallScrapePrice Amazon both_url,
                Println ''499'', ErrorScrapingPrice Amazon both_url (Err ''amazon: timeout''),
                UpdatedPrice ''B'' (Num 499)]\<rparr>)"
  by (simp add: database_UpdatePrices_def Contains_both_url quiet_env_def amazon_down_env_def
        both_fresh_def example_ParseFloat_values database_UpdatePrices_store_def
        update_aggregates_def time_Now_def UpdateOne_def update_one_def emit_def both_world_def
        empty_world_def both_doc_def push_price_set_aggregates_def push_price_def Let_def)

text \<open>
  Claim C5. When \<open>Find\<close> succeeds, the refresh pipeline of \<^verbatim>\<open>mongo.go\<close> returns nil
  whatever fails for the single documents (decode, scrape, parse, unsupported vendor,
  update), and it takes every document of the cursor through one turn of the loop: the
  output gains exactly one report per document, next to the scraper calls.
\<close>

theorem MongoDB_UpdatePrices_returns_nil:
  assumes "find_err env (collection m) = None"
  shows "\<exists>es. MongoDB_UpdatePrices env m w =
           (None, MongoDB_UpdatePrices_loop env m (db w (collection m)) w) \<and>
         out (snd (MongoDB_UpdatePrices env m w)) = out w @ es \<and>
         length (filter (\<lambda>e. \<not> is_call e) es) = length (db w (collection m))"
  using assms MongoDB_UpdatePrices_loop_out[of env m "db w (collection m)" w]
  by (auto simp: MongoDB_UpdatePrices_def Find_def)

theorem MongoDB_UpdatePrices_returns_nil_witness:
  "fst (MongoDB_UpdatePrices flaky_env alice mixed_world) = None \<and>
   out (snd (MongoDB_UpdatePrices flaky_env alice mixed_world)) =
     [CallScrapePrice Amazon ''https://amazon.x/p/1'',
      ErrorParsingPrice ''not-a-number'' (Err ''strconv.ParseFloat: invalid syntax''),
      CallScrapePrice Flipkart ''https://flipkart.x/p/7'',
      ErrorScrapingPrice Flipkart ''https://flipkart.x/p/7'' (Err ''flipkart: 503''),
      UnsupportedVendor ''https://example.com/p'',
      ErrorDecodingProduct (Err ''cannot decode''),
      CallScrapePrice Amazon ''https://amazon.x/p/3'',
      ErrorUpdatingPrice ''https://amazon.x/p/3'' (Err ''write failed''),
      CallScrapePrice Amazon ''https://amazon.x/p/2'', UpdatedPrice ''A2'' (Num 120)] \<and>
   map price_history (db (snd (MongoDB_UpdatePrices flaky_env alice mixed_world)) ''alice'') =
     [Val [], Val [], Val [], Absent, Val [], Val [\<lparr>Value = Num 120, Timestamp = 1\<rparr>]]"
proof -
  have h: "find_err flaky_env (collection alice) = None"
    by (simp add: flaky_env_def quiet_env_def)
  from MongoDB_UpdatePrices_returns_nil [OF h, of mixed_world] show ?thesis
    by (simp add: eval_defs)
qed

text \<open>
  Claim C6. A fresh product, with minimum and maximum 0, must end its first refresh
  with both at the scraped price. \<open>UpdatePrices\<close> of package \<open>database\<close> reaches its
  aggregate step only inside the Flipkart branch and behind the Amazon branch, as its
  braces nest. For a fresh product with a Flipkart URL the price 50 is scraped and
  parsed, the product is then reported as an unsupported vendor, nil is returned, and
  product and store are as before. For a fresh product with an Amazon URL the call
  returns nil and does nothing at all.
\<close>

theorem database_UpdatePrices_single_vendor_not_refreshed:
  "MinPrice flipkart_fresh = Num 0 \<and> MaxPrice flipkart_fresh = Num 0 \<and>
   ScrapePriceFlipkart quiet_env (ProductURL flipkart_fresh) = (''50'', None) \<and>
   ParseFloat quiet_env ''50'' = Inr (Num 50) \<and>
   database_UpdatePrices quiet_env ''alice'' flipkart_fresh fresh_world =
     (None, flipkart_fresh,
      fresh_world\<lparr>out := [CallScrapePrice Flipkart ''https://flipkart.x/p/7'',
                         UnsupportedVendor ''https://flipkart.x/p/7'']\<rparr>) \<and>
   MinPrice amazon_fresh = Num 0 \<and> MaxPrice amazon_fresh = Num 0 \<and>
   database_UpdatePrices quiet_env ''alice'' amazon_fresh fresh_world =
     (None, amazon_fresh, fresh_world)"
  by (simp add: database_UpdatePrices_def Contains_examples Contains_p1 quiet_env_def
        flipkart_fresh_def amazon_fresh_def both_fresh_def example_ParseFloat_values emit_def
        fresh_world_def empty_world_def)




text \<open>
  Claim C8. Upserting a product twice in succession leaves the store as upserting it
  once does, in \<^verbatim>\<open>mongo.go\<close> (with the product as passed the first time, and with
  the product as the first call left it behind the pointer) and in package \<open>database\<close>.
  The collaborators are the same for both calls. Where the first upsert succeeded,
  lemmas \<open>MongoDB_UpsertProduct_again\<close> and \<open>database_UpsertProduct_again\<close> say that a
  second one leaves the store alone whatever the store's failures are then.
\<close>

theorem UpsertProduct_idempotent:
  "snd (snd (MongoDB_UpsertProduct env m p (snd (snd (MongoDB_UpsertProduct env m p w))))) =
     snd (snd (MongoDB_UpsertProduct env m p w)) \<and>
   snd (snd (MongoDB_UpsertProduct env m (fst (snd (MongoDB_UpsertProduct env m p w)))
               (snd (snd (MongoDB_UpsertProduct env m p w))))) =
     snd (snd (MongoDB_UpsertProduct env m p w)) \<and>
   snd (database_UpsertProduct env q user (snd (database_UpsertProduct env q user w))) =
     snd (database_UpsertProduct env q user w)"
proof -
  obtain r p' w' where a: "MongoDB_UpsertProduct env m p w = (r, p', w')"
    by (cases "MongoDB_UpsertProduct env m p w") auto
  obtain r2 w2 where b: "database_UpsertProduct env q user w = (r2, w2)"
    by (cases "database_UpsertProduct env q user w") auto
  have "snd (snd (MongoDB_UpsertProduct env m p w')) = w' \<and>
        snd (snd (MongoDB_UpsertProduct env m p' w')) = w'"
  proof (cases r)
    case None
    with a MongoDB_UpsertProduct_again[of env m p w p' w' env] show ?thesis by simp
  next
    case (Some e)
    with a have f: "MongoDB_UpsertProduct env m p w = (Some e, p', w')" by simp
    from MongoDB_UpsertProduct_failed[OF f] have w: "w' = w" .
    have "snd (snd (MongoDB_UpsertProduct env m p w)) = w"
      by (rule MongoDB_UpsertProduct_fails_again[OF f refl])
    moreover have "snd (snd (MongoDB_UpsertProduct env m p' w)) = w"
      by (rule MongoDB_UpsertProduct_fails_again[OF f MongoDB_UpsertProduct_url[OF f]])
    ultimately show ?thesis using w by simp
  qed
  moreover have "snd (database_UpsertProduct env q user w2) = w2"
  proof (cases r2)
    case None
    with b database_UpsertProduct_again[of env q user w w2 env] show ?thesis by simp
  next
    case (Some e)
    with b have f: "database_UpsertProduct env q user w = (Some e, w2)" by simp
    from database_UpsertProduct_failed[OF f] have "w2 = w" .
    with f show ?thesis by simp
  qed
  ultimately show ?thesis using a b by simp
qed

theorem UpsertProduct_idempotent_witness:
  "db (snd (snd (MongoDB_UpsertProduct quiet_env alice amazon_p1
         (snd (snd (MongoDB_UpsertProduct quiet_env alice amazon_p1 empty_world)))))) ''alice'' =
     [p1_doc] \<and>
   db (snd (snd (MongoDB_UpsertProduct quiet_env alice amazon_p1 empty_world))) ''alice'' =
     [p1_doc]"
  using UpsertProduct_idempotent [of quiet_env alice amazon_p1 empty_world]
  by (simp add: MongoDB_UpsertProduct_cases upserted_def quiet_env_def alice_def amazon_p1_def
        empty_world_def p1_doc_def set_Product_def new_document_def)




text \<open>
  Claim C10, as amended. \<open>UpdateIncompleteRecords\<close> of \<^verbatim>\<open>mongo.go\<close> does not depend
  on its receiver. It opens a session of its own for the collection \<open>cypher\<close>, and every
  other collection is neither read nor written: replacing the documents of another
  collection before the call is the same as replacing them after it. So the receiver's
  own collection is untouched unless the receiver was itself opened for \<open>cypher\<close>.
\<close>

theorem UpdateIncompleteRecords_uses_cypher:
  "MongoDB_UpdateIncompleteRecords env h w = MongoDB_UpdateIncompleteRecords env h' w \<and>
   (c \<noteq> ''cypher'' \<longrightarrow>
      MongoDB_UpdateIncompleteRecords env h (put_collection c ds w) =
        (case MongoDB_UpdateIncompleteRecords env h w of
           (r, w') \<Rightarrow> (r, put_collection c ds w')) \<and>
      db (snd (MongoDB_UpdateIncompleteRecords env h w)) c = db w c) \<and>
   (collection h \<noteq> ''cypher'' \<longrightarrow>
      db (snd (MongoDB_UpdateIncompleteRecords env h w)) (collection h) = db w (collection h)) \<and>
   (connect_err env (MongoURI env) = None \<longrightarrow>
      next_client (snd (MongoDB_UpdateIncompleteRecords env h w)) = Suc (next_client w))"
proof -
  have frame: "db (snd (MongoDB_UpdateIncompleteRecords env h w)) c = db w c"
    if "c \<noteq> ''cypher''" for c
  proof -
    obtain r w' where e: "MongoDB_UpdateIncompleteRecords env h w = (r, w')"
      by (cases "MongoDB_UpdateIncompleteRecords env h w") auto
    from MongoDB_UpdateIncompleteRecords_put_collection[OF that, of env h "db w c" w] e
    have "w' = put_collection c (db w c) w'" by simp
    then have "db w' c = db (put_collection c (db w c) w') c" by simp
    with e show ?thesis by simp
  qed
  have sess: "next_client (snd (MongoDB_UpdateIncompleteRecords env h w)) = Suc (next_client w)"
    if "connect_err env (MongoURI env) = None"
  proof -
    have l: "next_client (MongoDB_UpdateIncompleteRecords_loop env dbh cursor v) = next_client v"
      for dbh cursor v
      by (induction cursor arbitrary: v)
         (auto simp: MongoDB_UpdateIncompleteRecords_item_def MongoDB_UpsertProduct_cases
            emit_def Let_def split: sum.splits option.splits)
    from that show ?thesis
      by (auto simp: MongoDB_UpdateIncompleteRecords_def NewMongoDB_def Let_def l emit_def
            MongoDB_Close_def Find_def split: option.splits sum.splits)
  qed
  have "MongoDB_UpdateIncompleteRecords env h w = MongoDB_UpdateIncompleteRecords env h' w"
    by (simp add: MongoDB_UpdateIncompleteRecords_def)
  with frame sess MongoDB_UpdateIncompleteRecords_put_collection[of c env h ds w]
  show ?thesis by blast
qed

theorem UpdateIncompleteRecords_uses_cypher_witness:
  "fst (MongoDB_UpdateIncompleteRecords quiet_env alice cypher_world) = Returned None \<and>
   db (snd (MongoDB_UpdateIncompleteRecords quiet_env alice cypher_world)) ''alice'' = [bad_doc] \<and>
   db (snd (MongoDB_UpdateIncompleteRecords quiet_env alice cypher_world)) ''cypher'' =
     [incomplete_doc\<lparr>product_name := Val ''A2'', image_url := Val ''i2'',
                     specifications := Val [''s2'']\<rparr>] \<and>
   next_client (snd (MongoDB_UpdateIncompleteRecords quiet_env alice cypher_world)) = 2"
  using UpdateIncompleteRecords_uses_cypher [of quiet_env alice cypher_world cypher_handle
      "''alice''" "[bad_doc]"]
  by (simp add: repair_defs alice_def cypher_world_def incomplete_doc_def bad_doc_def)

text \<open>
  Claim C10 as stated fails for a receiver opened for the user \<open>cypher\<close>: its own
  collection is the one the repair pass rewrites.
\<close>

theorem UpdateIncompleteRecords_counterexample:
  "collection cypher_handle = ''cypher'' \<and>
   db cypher_world (collection cypher_handle) = [incomplete_doc] \<and>
   db (snd (MongoDB_UpdateIncompleteRecords quiet_env cypher_handle cypher_world))
      (collection cypher_handle) =
     [incomplete_doc\<lparr>product_name := Val ''A2'', image_url := Val ''i2'',
                     specifications := Val [''s2'']\<rparr>] \<and>
   db (snd (MongoDB_UpdateIncompleteRecords quiet_env cypher_handle cypher_world))
      (collection cypher_handle) \<noteq> db cypher_world (collection cypher_handle)"
  by (simp add: repair_defs cypher_handle_def cypher_world_def incomplete_doc_def bad_doc_def)

end
